theory Spec2Isabelle
  imports Main "HOL-Library.Sublist"
begin

section \<open>Python values and the process environment\<close>

text \<open>
  A Python \<open>str\<close> is a sequence of code points, and \<open>len\<close> and slicing count code
  points. The lines that cross the streaming bridge are therefore lists of code points
  (\<open>nat\<close>), so that a line with non-ASCII content is one element per character. Names,
  roles and environment values, whose length no claim depends on, are plain strings.
\<close>

type_synonym pystr = "nat list"

definition ustr :: "string \<Rightarrow> pystr" where
  "ustr s = map of_char s"

text \<open>\<open>sub in s\<close> on sequences: \<open>sub\<close> occurs as a contiguous block of \<open>s\<close>.\<close>

fun py_in :: "'a list \<Rightarrow> 'a list \<Rightarrow> bool" where
  "py_in sub [] = (sub = [])"
| "py_in sub (c # cs) = (prefix sub (c # cs) \<or> py_in sub cs)"

text \<open>\<open>s.endswith(suf)\<close>.\<close>

definition endswith :: "'a list \<Rightarrow> 'a list \<Rightarrow> bool" where
  "endswith s suf = suffix suf s"

text \<open>
  \<open>s[:-k]\<close> for a positive literal \<open>k\<close>: the first \<open>len(s) - k\<close> elements, and the
  empty sequence when \<open>s\<close> is shorter than \<open>k\<close> (the subtraction on \<open>nat\<close> stops at 0,
  as Python's clamping of the slice bound does).
\<close>

definition drop_last :: "nat \<Rightarrow> 'a list \<Rightarrow> 'a list" where
  "drop_last k s = take (length s - k) s"

text \<open>
  The environment maps variable names to values. \<open>os.getenv(k)\<close> is the lookup itself;
  \<open>os.getenv(k, d)\<close> returns the default \<open>d\<close>, whatever its type, when \<open>k\<close> is unset
  and the variable's string otherwise.
\<close>

type_synonym environ = "string \<rightharpoonup> string"

datatype pyval = PyInt int | PyStr string

datatype error = ValueError | KeyError string | ValidationError

definition getenv :: "environ \<Rightarrow> string \<Rightarrow> string option" where
  "getenv env k = env k"

definition getenv_default :: "environ \<Rightarrow> string \<Rightarrow> pyval \<Rightarrow> pyval" where
  "getenv_default env k d = (case env k of None \<Rightarrow> d | Some v \<Rightarrow> PyStr v)"

text \<open>
  Truth value of \<open>os.getenv(k)\<close> in a condition: \<open>None\<close> and the empty string are
  false, every other string is true.
\<close>

definition truthy :: "string option \<Rightarrow> bool" where
  "truthy v = (case v of None \<Rightarrow> False | Some s \<Rightarrow> s \<noteq> [])"

text \<open>
  \<open>int(v)\<close>: an int is returned as it is; a string is parsed, and a string that is no
  integer literal raises \<open>ValueError\<close>. The parser of integer literals is the
  interpreter's, taken here as the parameter \<open>parse\<close>.
\<close>

definition py_int :: "(string \<Rightarrow> int option) \<Rightarrow> pyval \<Rightarrow> error + int" where
  "py_int parse v =
     (case v of
        PyInt n \<Rightarrow> Inr n
      | PyStr s \<Rightarrow> (case parse s of None \<Rightarrow> Inl ValueError | Some n \<Rightarrow> Inr n))"


section \<open>Agents, tasks and crews\<close>

text \<open>
  The database session, the caller identity and the model handle are opaque to the
  orchestration code: it only passes them on.
\<close>

type_synonym sql_db = nat
type_synonym user_id = string
type_synonym llm_handle = string

text \<open>
  A tool adapter is identified by the factory that built it and the arguments it was
  bound to.
\<close>

datatype tool =
    get_code_from_node_id_tool sql_db user_id
  | get_code_from_probable_node_name_tool sql_db user_id
  | get_nodes_from_tags_tool sql_db user_id
  | get_ask_knowledge_graph_queries_tool sql_db user_id
  | get_code_file_structure_tool sql_db
  | get_node_neighbours_from_node_id_tool sql_db
  | webpage_extractor_tool sql_db user_id
  | github_tool sql_db user_id

text \<open>
  The personas and task instructions are long literal texts; each is represented by a
  constructor that carries the values interpolated into it.
\<close>

datatype backstory =
    CodebaseAnalystBackstory
  | DesignPlannerBackstory
  | UnitTestExpertBackstory

datatype schema = LowLevelDesignPlanSchema | TestAgentResponseSchema

datatype description =
    AnalyzeCodebaseDescription string string
  | CreateDesignPlanDescription string string
  | UnitTestDescription "string list" "string list" string pyval string schema

text \<open>
  Modelled from the spec: the framework's \<open>Agent\<close> class is not under the source
  tree. By the spec's data model an agent definition is \<open>{role, goal, persona, tools,
  allow_delegation: bool, iteration_budget: int, model_handle}\<close>: the object the
  constructor builds carries its iteration budget in an int field.
\<close>

record AgentDefinition =
  role :: string
  goal :: string
  persona :: backstory
  tools :: "tool list"
  allow_delegation :: bool
  iteration_budget :: int
  model_handle :: llm_handle

text \<open>
  The keyword arguments of the framework's \<open>Agent\<close>, \<open>Task\<close> and \<open>Crew\<close>
  constructors, as the source passes them. An argument the source leaves out is
  \<open>None\<close>.
\<close>

record Agent =
  role :: string
  goal :: string
  backstory :: backstory
  tools :: "tool list"
  allow_delegation :: bool
  verbose :: bool
  llm :: llm_handle
  max_iter :: "pyval option"

datatype Task = Task
  (description: description) (agent: Agent) (context': "Task list option")
  (expected_output: string) (output_pydantic: "schema option")
  (async_execution: "bool option")

datatype process = sequential | hierarchical

record Crew =
  agents :: "Agent list"
  tasks :: "Task list"
  process :: process
  verbose :: bool

text \<open>
  Modelled from the spec: the constructor of the framework's \<open>Agent\<close> class, which
  turns the keyword arguments into an agent definition. The int field
  \<open>iteration_budget\<close> is filled from the argument \<open>max_iter\<close>: an argument that is
  left out gives the class's default, and an argument that is given goes through the
  validation of the field, which yields an int or raises. The default and the
  conversion are the framework's, taken as the parameters \<open>default_max_iter\<close> and
  \<open>to_int\<close>.
\<close>

definition Agent_construct ::
  "int \<Rightarrow> (pyval \<Rightarrow> int option) \<Rightarrow> Agent \<Rightarrow> error + AgentDefinition" where
  "Agent_construct default_max_iter to_int kwargs =
     (case (case Agent.max_iter kwargs of
              None \<Rightarrow> Some default_max_iter
            | Some v \<Rightarrow> to_int v) of
        None \<Rightarrow> Inl ValidationError
      | Some n \<Rightarrow> Inr
          \<lparr> AgentDefinition.role = Agent.role kwargs,
            AgentDefinition.goal = Agent.goal kwargs,
            persona = backstory kwargs,
            AgentDefinition.tools = Agent.tools kwargs,
            AgentDefinition.allow_delegation = Agent.allow_delegation kwargs,
            iteration_budget = n,
            model_handle = Agent.llm kwargs \<rparr>)"

text \<open>
  A conversion in lax mode: an int is kept, and a string is accepted when it parses as
  an integer.
\<close>

definition lax_to_int :: "(string \<Rightarrow> int option) \<Rightarrow> pyval \<Rightarrow> int option" where
  "lax_to_int parse v = (case v of PyInt n \<Rightarrow> Some n | PyStr s \<Rightarrow> parse s)"



section \<open>The design pipeline: \<open>LowLevelDesignAgent\<close>\<close>

text \<open>
  The instance attributes set by \<open>__init__\<close>. The two optional adapters are attributes
  that exist only when their environment variable is truthy: \<open>hasattr\<close> is
  \<open>\<noteq> None\<close>.
\<close>

record LowLevelDesignAgent =
  openai_api_key :: "string option"
  max_iter :: int
  sql_db :: sql_db
  llm :: llm_handle
  user_id :: user_id
  get_code_from_node_id :: tool
  get_code_from_probable_node_name :: tool
  get_nodes_from_tags :: tool
  ask_knowledge_graph_queries :: tool
  get_code_file_structure :: tool
  get_node_neighbours_from_node_id :: tool
  webpage_extractor_tool :: "tool option"
  github_tool :: "tool option"

definition LowLevelDesignAgent_init ::
  "(string \<Rightarrow> int option) \<Rightarrow> environ \<Rightarrow> sql_db \<Rightarrow> llm_handle \<Rightarrow> user_id
     \<Rightarrow> error + LowLevelDesignAgent" where
  "LowLevelDesignAgent_init parse env db l uid =
     (case py_int parse (getenv_default env ''MAX_ITER'' (PyInt 10)) of
        Inl e \<Rightarrow> Inl e
      | Inr n \<Rightarrow> Inr
          \<lparr> openai_api_key = getenv env ''OPENAI_API_KEY'',
            max_iter = n,
            sql_db = db,
            llm = l,
            user_id = uid,
            get_code_from_node_id = get_code_from_node_id_tool db uid,
            get_code_from_probable_node_name = get_code_from_probable_node_name_tool db uid,
            get_nodes_from_tags = get_nodes_from_tags_tool db uid,
            ask_knowledge_graph_queries = get_ask_knowledge_graph_queries_tool db uid,
            get_code_file_structure = get_code_file_structure_tool db,
            get_node_neighbours_from_node_id = get_node_neighbours_from_node_id_tool db,
            webpage_extractor_tool =
              (if truthy (getenv env ''FIRECRAWL_API_KEY'')
               then Some (tool.webpage_extractor_tool db uid) else None),
            github_tool =
              (if truthy (getenv env ''GITHUB_APP_ID'')
               then Some (tool.github_tool db uid) else None) \<rparr>)"

text \<open>\<open>[x] if hasattr(self, name) else []\<close>.\<close>

definition if_hasattr :: "'a option \<Rightarrow> 'a list" where
  "if_hasattr attr = (case attr of None \<Rightarrow> [] | Some x \<Rightarrow> [x])"

definition codebase_analyst :: "LowLevelDesignAgent \<Rightarrow> Agent" where
  "codebase_analyst self =
     \<lparr> role = ''Codebase Analyst'',
       goal = ''Analyze the existing codebase and provide insights on the current structure and patterns'',
       backstory = CodebaseAnalystBackstory,
       tools =
         [ get_nodes_from_tags self,
           ask_knowledge_graph_queries self,
           LowLevelDesignAgent.get_code_from_node_id self,
           LowLevelDesignAgent.get_code_from_probable_node_name self,
           get_code_file_structure self ]
         @ if_hasattr (LowLevelDesignAgent.webpage_extractor_tool self)
         @ if_hasattr (LowLevelDesignAgent.github_tool self),
       allow_delegation = False,
       verbose = True,
       llm = LowLevelDesignAgent.llm self,
       max_iter = Some (PyInt (LowLevelDesignAgent.max_iter self)) \<rparr>"

definition design_planner :: "LowLevelDesignAgent \<Rightarrow> Agent" where
  "design_planner self =
     \<lparr> role = ''Design Planner'',
       goal = ''Create a detailed low-level design plan for implementing new features'',
       backstory = DesignPlannerBackstory,
       tools =
         [ get_nodes_from_tags self,
           ask_knowledge_graph_queries self,
           LowLevelDesignAgent.get_code_from_node_id self,
           LowLevelDesignAgent.get_code_from_probable_node_name self,
           get_code_file_structure self,
           get_node_neighbours_from_node_id self ],
       allow_delegation = True,
       verbose = True,
       llm = LowLevelDesignAgent.llm self,
       max_iter = None \<rparr>"

definition LowLevelDesignAgent_create_agents :: "LowLevelDesignAgent \<Rightarrow> Agent \<times> Agent" where
  "LowLevelDesignAgent_create_agents self = (codebase_analyst self, design_planner self)"

definition analyze_codebase_task :: "string \<Rightarrow> string \<Rightarrow> Agent \<Rightarrow> Task" where
  "analyze_codebase_task functional_requirements project_id analyst =
     Task (AnalyzeCodebaseDescription project_id functional_requirements)
          analyst
          None
          ''Codebase analysis report with insights on project structure and patterns''
          None
          None"

definition create_design_plan_task :: "string \<Rightarrow> string \<Rightarrow> Agent \<Rightarrow> Agent \<Rightarrow> Task" where
  "create_design_plan_task functional_requirements project_id analyst planner =
     Task (CreateDesignPlanDescription project_id functional_requirements)
          planner
          (Some [analyze_codebase_task functional_requirements project_id analyst])
          ''Low-level design plan for implementing the new feature''
          None
          None"

definition LowLevelDesignAgent_create_tasks :: "string \<Rightarrow> string \<Rightarrow> Agent \<Rightarrow> Agent \<Rightarrow> Task list" where
  "LowLevelDesignAgent_create_tasks functional_requirements project_id analyst planner =
     [ analyze_codebase_task functional_requirements project_id analyst,
       create_design_plan_task functional_requirements project_id analyst planner ]"


subsection \<open>The streaming bridge\<close>

definition final_answer_marker :: pystr where
  "final_answer_marker = ustr ''## Final Answer:''"

text \<open>The literal \<open>"\x1b[00m\n"\<close>: ESC, \<open>[\<close>, \<open>0\<close>, \<open>0\<close>, \<open>m\<close>, newline.\<close>

definition reset_newline :: pystr where
  "reset_newline = [27, 91, 48, 48, 109, 10]"

text \<open>The chunk yielded for a line read while the flag is set.\<close>

definition emit :: "pystr \<Rightarrow> pystr" where
  "emit line = (if endswith line reset_newline then drop_last 6 line else line)"

text \<open>
  The state of the reading loop: the flag \<open>final_answer_streaming\<close> and the chunks
  yielded so far. \<open>consume\<close> is the loop over the lines read from the pipe: an empty
  read ends it, a line is yielded when the flag is already set, and only then is the
  flag set by a line that contains the marker.
\<close>

record bridge =
  final_answer_streaming :: bool
  yielded :: "pystr list"

fun consume :: "bridge \<Rightarrow> pystr list \<Rightarrow> bridge" where
  "consume st [] = st"
| "consume st (line # rest) =
     (if line = [] then st
      else consume
        \<lparr> final_answer_streaming =
            (if py_in final_answer_marker line then True else final_answer_streaming st),
          yielded = yielded st @ (if final_answer_streaming st then [emit line] else []) \<rparr>
        rest)"

text \<open>
  \<open>run\<close> builds the two agents, the two tasks and the crew, starts the executor with
  its standard output redirected into the pipe, and reads the pipe line by line. The
  executor is the framework's: \<open>stdout_lines\<close> gives the lines it prints for a crew.
  The value returned is the sequence of chunks the generator yields.
\<close>

definition LowLevelDesignAgent_run :: "LowLevelDesignAgent \<Rightarrow> string \<Rightarrow> string \<Rightarrow> (Crew \<Rightarrow> pystr list) \<Rightarrow> pystr list" where
  "LowLevelDesignAgent_run self functional_requirements project_id stdout_lines =
     (let (analyst, planner) = LowLevelDesignAgent_create_agents self;
          ts = LowLevelDesignAgent_create_tasks functional_requirements project_id analyst planner;
          crew = \<lparr> agents = [analyst, planner], tasks = ts,
                   process = sequential, verbose = True \<rparr>
      in yielded (consume \<lparr> final_answer_streaming = False, yielded = [] \<rparr>
                    (stdout_lines crew)))"


section \<open>The test pipeline: \<open>UnitTestAgent\<close>\<close>

text \<open>
  \<open>max_iterations\<close> is what \<open>os.getenv("MAX_ITER", 15)\<close> returns: the int \<open>15\<close> when
  the variable is unset, the variable's string otherwise.
\<close>

record UnitTestAgent =
  openai_api_key :: "string option"
  max_iterations :: pyval
  sql_db :: sql_db
  llm :: llm_handle
  user_id :: user_id
  get_code_from_node_id :: tool
  get_code_from_probable_node_name :: tool
  webpage_extractor_tool :: "tool option"
  github_tool :: "tool option"

definition UnitTestAgent_init :: "environ \<Rightarrow> sql_db \<Rightarrow> llm_handle \<Rightarrow> user_id \<Rightarrow> UnitTestAgent" where
  "UnitTestAgent_init env db l uid =
     \<lparr> openai_api_key = getenv env ''OPENAI_API_KEY'',
       max_iterations = getenv_default env ''MAX_ITER'' (PyInt 15),
       sql_db = db,
       llm = l,
       user_id = uid,
       get_code_from_node_id = get_code_from_node_id_tool db uid,
       get_code_from_probable_node_name = get_code_from_probable_node_name_tool db uid,
       webpage_extractor_tool =
         (if truthy (getenv env ''FIRECRAWL_API_KEY'')
          then Some (tool.webpage_extractor_tool db uid) else None),
       github_tool =
         (if truthy (getenv env ''GITHUB_APP_ID'')
          then Some (tool.github_tool db uid) else None) \<rparr>"

definition UnitTestAgent_create_agents :: "UnitTestAgent \<Rightarrow> Agent" where
  "UnitTestAgent_create_agents self =
     \<lparr> role = ''Test Plan and Unit Test Expert'',
       goal = ''Create test plans and write unit tests based on user requirements'',
       backstory = UnitTestExpertBackstory,
       tools =
         [ UnitTestAgent.get_code_from_node_id self,
           UnitTestAgent.get_code_from_probable_node_name self ]
         @ if_hasattr (UnitTestAgent.webpage_extractor_tool self)
         @ if_hasattr (UnitTestAgent.github_tool self),
       allow_delegation = False,
       verbose = True,
       llm = UnitTestAgent.llm self,
       max_iter = Some (max_iterations self) \<rparr>"











section \<open>The provider endpoints\<close>

text \<open>
  The module reads \<open>LITELLM_PROVIDER\<close> once, when it is imported, into the global
  \<open>litellm_provider\<close>.
\<close>

definition litellm_provider :: "environ \<Rightarrow> string option" where
  "litellm_provider import_env = getenv import_env ''LITELLM_PROVIDER''"

text \<open>
  A call of a method of \<open>ProviderController(db, user_id)\<close>: the arguments of the
  constructor, then those of the method.
\<close>

datatype controller_call =
    controller_set_global_ai_provider sql_db string string "string option"

text \<open>
  The endpoint. \<open>user\<close> is the dictionary returned by the authentication dependency;
  \<open>user["user_id"]\<close> raises \<open>KeyError\<close> when the key is missing. The request body
  is of the schema type \<open>SetProviderRequest\<close>, of which the body of the function reads
  nothing: it is a value of any type \<open>'req\<close>. \<open>controller\<close> gives what the
  controller returns for a call.
\<close>

definition set_global_ai_provider ::
  "string option \<Rightarrow> (controller_call \<Rightarrow> 'r) \<Rightarrow> 'req \<Rightarrow> sql_db \<Rightarrow> (string \<rightharpoonup> string)
     \<Rightarrow> error + 'r" where
  "set_global_ai_provider module_litellm_provider controller provider_request db user =
     (case user ''user_id'' of
        None \<Rightarrow> Inl (KeyError ''user_id'')
      | Some uid \<Rightarrow>
          Inr (controller (controller_set_global_ai_provider db uid uid module_litellm_provider)))"


section \<open>The design-plan schema\<close>

text \<open>
  \<open>DesignStep\<close> and \<open>LowLevelDesignPlan\<close> are declared as models with required,
  typed fields and nothing else: no validator, no constraint on a field.
\<close>

record DesignStep =
  step_number :: int
  description :: string
  relevant_files :: "string list"
  code_changes :: "(string \<times> string) list"

record LowLevelDesignPlan =
  feature_name :: string
  overview :: string
  design_steps :: "DesignStep list"
  potential_challenges :: "string list"

text \<open>
  The raw output to validate is a JSON value (numbers with a fraction are left out). An
  object is an association list whose keys are distinct.
\<close>

datatype json =
    JNull
  | JBool bool
  | JInt int
  | JStr string
  | JList "json list"
  | JObject "(string \<times> json) list"

type_synonym 'a validator = "json \<Rightarrow> error + 'a"

text \<open>
  Validation of a model follows its declaration: the raw value must be an object, every
  declared field must be present (\<open>Field(...)\<close>), and each field's value must pass the
  validator of the field's annotated type. A list is validated element by element and
  a dictionary value by value. How a scalar of another type is treated (accepted after
  conversion, or rejected) is the validation library's policy: the validators of \<open>int\<close>
  and \<open>str\<close> are the parameters \<open>vint\<close> and \<open>vstr\<close>. \<open>lax_int\<close> and
  \<open>lax_str\<close> are the library's default policy: an int field takes an integer as
  it is, a boolean as 0 or 1 and a string that parses as an integer (by \<open>parse\<close>) as
  that integer; a str field takes a string only.
\<close>

definition lax_int :: "(string \<Rightarrow> int option) \<Rightarrow> int validator" where
  "lax_int parse j =
     (case j of
        JInt n \<Rightarrow> Inr n
      | JBool b \<Rightarrow> Inr (if b then 1 else 0)
      | JStr s \<Rightarrow> (case parse s of None \<Rightarrow> Inl ValidationError | Some n \<Rightarrow> Inr n)
      | _ \<Rightarrow> Inl ValidationError)"

definition lax_str :: "string validator" where
  "lax_str j = (case j of JStr s \<Rightarrow> Inr s | _ \<Rightarrow> Inl ValidationError)"

definition and_then :: "error + 'a \<Rightarrow> ('a \<Rightarrow> error + 'b) \<Rightarrow> error + 'b" where
  "and_then r f = (case r of Inl e \<Rightarrow> Inl e | Inr x \<Rightarrow> f x)"

fun validate_each :: "'a validator \<Rightarrow> json list \<Rightarrow> error + 'a list" where
  "validate_each v [] = Inr []"
| "validate_each v (j # js) =
     and_then (v j) (\<lambda>x. and_then (validate_each v js) (\<lambda>xs. Inr (x # xs)))"

definition validate_List :: "'a validator \<Rightarrow> 'a list validator" where
  "validate_List v j = (case j of JList js \<Rightarrow> validate_each v js | _ \<Rightarrow> Inl ValidationError)"

fun validate_values :: "'a validator \<Rightarrow> (string \<times> json) list \<Rightarrow> error + (string \<times> 'a) list" where
  "validate_values v [] = Inr []"
| "validate_values v ((k, j) # kvs) =
     and_then (v j) (\<lambda>x. and_then (validate_values v kvs) (\<lambda>xs. Inr ((k, x) # xs)))"

definition validate_Dict :: "'a validator \<Rightarrow> (string \<times> 'a) list validator" where
  "validate_Dict v j =
     (case j of JObject kvs \<Rightarrow> validate_values v kvs | _ \<Rightarrow> Inl ValidationError)"

definition required_field :: "(string \<times> json) list \<Rightarrow> string \<Rightarrow> 'a validator \<Rightarrow> error + 'a" where
  "required_field kvs name v =
     (case map_of kvs name of None \<Rightarrow> Inl ValidationError | Some j \<Rightarrow> v j)"

definition validate_DesignStep :: "int validator \<Rightarrow> string validator \<Rightarrow> DesignStep validator" where
  "validate_DesignStep vint vstr j =
     (case j of
        JObject kvs \<Rightarrow>
          and_then (required_field kvs ''step_number'' vint) (\<lambda>n.
          and_then (required_field kvs ''description'' vstr) (\<lambda>d.
          and_then (required_field kvs ''relevant_files'' (validate_List vstr)) (\<lambda>fs.
          and_then (required_field kvs ''code_changes'' (validate_Dict vstr)) (\<lambda>cs.
          Inr \<lparr> step_number = n, description = d, relevant_files = fs,
                code_changes = cs \<rparr>))))
      | _ \<Rightarrow> Inl ValidationError)"

definition validate_LowLevelDesignPlan ::
  "int validator \<Rightarrow> string validator \<Rightarrow> LowLevelDesignPlan validator" where
  "validate_LowLevelDesignPlan vint vstr j =
     (case j of
        JObject kvs \<Rightarrow>
          and_then (required_field kvs ''feature_name'' vstr) (\<lambda>f.
          and_then (required_field kvs ''overview'' vstr) (\<lambda>ov.
          and_then (required_field kvs ''design_steps''
                      (validate_List (validate_DesignStep vint vstr))) (\<lambda>steps.
          and_then (required_field kvs ''potential_challenges'' (validate_List vstr)) (\<lambda>pc.
          Inr \<lparr> feature_name = f, overview = ov, design_steps = steps,
                potential_challenges = pc \<rparr>))))
      | _ \<Rightarrow> Inl ValidationError)"

text \<open>The JSON form of a model instance.\<close>

definition dump_DesignStep :: "DesignStep \<Rightarrow> json" where
  "dump_DesignStep s =
     JObject
       [ (''step_number'', JInt (step_number s)),
         (''description'', JStr (DesignStep.description s)),
         (''relevant_files'', JList (map JStr (relevant_files s))),
         (''code_changes'', JObject (map (\<lambda>(k, v). (k, JStr v)) (code_changes s))) ]"

definition dump_LowLevelDesignPlan :: "LowLevelDesignPlan \<Rightarrow> json" where
  "dump_LowLevelDesignPlan p =
     JObject
       [ (''feature_name'', JStr (feature_name p)),
         (''overview'', JStr (overview p)),
         (''design_steps'', JList (map dump_DesignStep (design_steps p))),
         (''potential_challenges'', JList (map JStr (potential_challenges p))) ]"


section \<open>Properties of the streaming bridge\<close>

text \<open>
  \<open>py_in\<close> is the contiguous-sublist relation of the list library.
\<close>

lemma py_in_sublist: "py_in xs ys = sublist xs ys"
  by (induction ys) (auto simp: sublist_Cons_right)

lemma emit_strip:
  "endswith l reset_newline \<Longrightarrow> emit l @ reset_newline = l"
  by (auto simp: emit_def endswith_def drop_last_def reset_newline_def suffix_def)

lemma emit_verbatim: "\<not> endswith l reset_newline \<Longrightarrow> emit l = l"
  by (simp add: emit_def)

lemma consume_flag_set:
  "final_answer_streaming st \<Longrightarrow>
   consume st ls =
     \<lparr> final_answer_streaming = True,
       yielded = yielded st @ map emit (takeWhile (\<lambda>l. l \<noteq> []) ls) \<rparr>"
proof (induction ls arbitrary: st)
  case Nil
  then show ?case by simp
next
  case (Cons l ls)
  then show ?case by simp
qed

lemma consume_before_marker:
  "\<not> final_answer_streaming st \<Longrightarrow> \<forall>l\<in>set ls. \<not> py_in final_answer_marker l \<Longrightarrow>
   consume st ls = st"
proof (induction ls arbitrary: st)
  case Nil
  then show ?case by simp
next
  case (Cons l ls)
  then show ?case by simp
qed

lemma consume_takeWhile: "consume st (takeWhile (\<lambda>l. l \<noteq> []) ls) = consume st ls"
  by (induction ls arbitrary: st) simp_all

lemma consume_append:
  "\<forall>l\<in>set pre. l \<noteq> [] \<Longrightarrow> consume st (pre @ rest) = consume (consume st pre) rest"
  by (induction pre arbitrary: st) simp_all

lemma marker_line_nonempty: "py_in final_answer_marker l \<Longrightarrow> l \<noteq> []"
  by (auto simp: final_answer_marker_def ustr_def)

lemma consume_marker_line:
  "py_in final_answer_marker m \<Longrightarrow>
   consume st (m # ls) =
     \<lparr> final_answer_streaming = True,
       yielded = yielded st @ (if final_answer_streaming st then [emit m] else [])
                 @ map emit (takeWhile (\<lambda>l. l \<noteq> []) ls) \<rparr>"
  by (simp add: marker_line_nonempty consume_flag_set)

lemma run_consume:
  "LowLevelDesignAgent_run self fr pid (\<lambda>_. ls) =
     yielded (consume \<lparr> final_answer_streaming = False, yielded = [] \<rparr> ls)"
  by (simp add: LowLevelDesignAgent_run_def LowLevelDesignAgent_create_agents_def)

lemma run_no_marker:
  assumes "\<forall>l\<in>set (takeWhile (\<lambda>l. l \<noteq> []) ls). \<not> py_in final_answer_marker l"
  shows "LowLevelDesignAgent_run self fr pid (\<lambda>_. ls) = []"
proof -
  have "consume \<lparr> final_answer_streaming = False, yielded = [] \<rparr> (takeWhile (\<lambda>l. l \<noteq> []) ls)
          = \<lparr> final_answer_streaming = False, yielded = [] \<rparr>"
    using assms by (intro consume_before_marker) simp_all
  then show ?thesis by (simp add: run_consume consume_takeWhile)
qed

lemma run_marker:
  assumes rd: "takeWhile (\<lambda>l. l \<noteq> []) ls = pre @ m # post"
    and pre: "\<forall>l\<in>set pre. \<not> py_in final_answer_marker l"
    and m: "py_in final_answer_marker m"
  shows "LowLevelDesignAgent_run self fr pid (\<lambda>_. ls) = map emit post"
proof -
  let ?s0 = "\<lparr> final_answer_streaming = False, yielded = [] \<rparr>"
  have ne: "\<forall>l\<in>set (pre @ m # post). l \<noteq> []"
    using set_takeWhileD [of _ "\<lambda>l. l \<noteq> []" ls] by (metis rd)
  then have ne_pre: "\<forall>l\<in>set pre. l \<noteq> []" and ne_post: "\<forall>l\<in>set post. l \<noteq> []"
    by simp_all
  have "consume ?s0 ls = consume ?s0 (pre @ m # post)"
    using consume_takeWhile [of ?s0 ls] rd by simp
  also have "\<dots> = consume (consume ?s0 pre) (m # post)"
    using ne_pre by (rule consume_append)
  also have "consume ?s0 pre = ?s0"
    using pre by (intro consume_before_marker) simp_all
  also have "consume ?s0 (m # post) =
      \<lparr> final_answer_streaming = True, yielded = map emit (takeWhile (\<lambda>l. l \<noteq> []) post) \<rparr>"
    by (simp add: consume_marker_line [OF m] del: consume.simps)
  also have "takeWhile (\<lambda>l. l \<noteq> []) post = post"
    using ne_post by (simp add: takeWhile_eq_all_conv)
  finally show ?thesis by (simp add: run_consume)
qed

lemma sample_design_agent:
  "LowLevelDesignAgent_init (\<lambda>s. None) Map.empty 0 ''model'' ''user'' =
     Inr (projr (LowLevelDesignAgent_init (\<lambda>s. None) Map.empty 0 ''model'' ''user''))"
  by (simp add: LowLevelDesignAgent_init_def py_int_def getenv_default_def)

text \<open>
  C1. For every sequence of lines the executor produces, the loop reads the lines up to
  the first empty read. If none of the lines read contains the marker
  \<open>## Final Answer:\<close>, nothing is yielded. Otherwise, with \<open>m\<close> the first line
  read that contains the marker, \<open>pre\<close> the lines read before it and \<open>post\<close> the
  lines read after it, the chunks yielded are exactly the lines of \<open>post\<close>, in order,
  each passed through \<open>emit\<close>: neither a line of \<open>pre\<close> nor \<open>m\<close> is yielded.
  \<open>emit\<close> returns the line verbatim, except that a line ending with the six
  characters of \<open>reset_newline\<close> is returned without exactly that suffix.
\<close>

theorem run_yields_only_after_marker:
  "((\<forall>l\<in>set (takeWhile (\<lambda>l. l \<noteq> []) ls). \<not> py_in final_answer_marker l)
      \<longrightarrow> LowLevelDesignAgent_run self fr pid (\<lambda>_. ls) = [])
   \<and> (takeWhile (\<lambda>l. l \<noteq> []) ls = pre @ m # post
        \<and> (\<forall>l\<in>set pre. \<not> py_in final_answer_marker l)
        \<and> py_in final_answer_marker m
      \<longrightarrow> LowLevelDesignAgent_run self fr pid (\<lambda>_. ls) = map emit post)
   \<and> (endswith line reset_newline \<longrightarrow> emit line @ reset_newline = line)
   \<and> (\<not> endswith line reset_newline \<longrightarrow> emit line = line)
   \<and> length reset_newline = 6"
  using run_no_marker [of ls self fr pid] run_marker [of ls pre m post self fr pid]
    emit_strip [of line] emit_verbatim [of line]
  by (simp add: reset_newline_def)

theorem run_yields_only_after_marker_witness:
  "takeWhile (\<lambda>l. l \<noteq> [])
      [ustr ''thinking'' @ [10], ustr ''## Final Answer:'' @ [10],
       ustr ''plan'' @ reset_newline, ustr ''done'' @ [10]]
     = [ustr ''thinking'' @ [10]] @ (ustr ''## Final Answer:'' @ [10])
         # [ustr ''plan'' @ reset_newline, ustr ''done'' @ [10]]
   \<and> \<not> py_in final_answer_marker (ustr ''thinking'' @ [10])
   \<and> py_in final_answer_marker (ustr ''## Final Answer:'' @ [10])
   \<and> endswith (ustr ''plan'' @ reset_newline) reset_newline
   \<and> \<not> endswith (ustr ''done'' @ [10]) reset_newline
   \<and> LowLevelDesignAgent_run
        (projr (LowLevelDesignAgent_init (\<lambda>s. None) Map.empty 0 ''model'' ''user''))
        ''add a login form'' ''project-1''
        (\<lambda>_. [ustr ''thinking'' @ [10], ustr ''## Final Answer:'' @ [10],
              ustr ''plan'' @ reset_newline, ustr ''done'' @ [10]])
      = [ustr ''plan'', ustr ''done'' @ [10]]"
proof -
  let ?a = "ustr ''thinking'' @ [10]" and ?m = "ustr ''## Final Answer:'' @ [10]"
  let ?b = "ustr ''plan'' @ reset_newline" and ?c = "ustr ''done'' @ [10]"
  have rd: "takeWhile (\<lambda>l. l \<noteq> []) [?a, ?m, ?b, ?c] = [?a] @ ?m # [?b, ?c]"
    by (simp add: ustr_def reset_newline_def)
  have pre: "\<forall>l\<in>set [?a]. \<not> py_in final_answer_marker l"
    by (simp add: ustr_def final_answer_marker_def)
  have m: "py_in final_answer_marker ?m"
    by (simp add: ustr_def final_answer_marker_def)
  have b: "endswith ?b reset_newline"
    by (simp add: endswith_def suffix_def)
  have c: "\<not> endswith ?c reset_newline"
    by (simp add: endswith_def ustr_def reset_newline_def suffix_def)
  have eb: "emit ?b = ustr ''plan''"
    using run_yields_only_after_marker [where line = ?b] b by simp
  have ec: "emit ?c = ?c"
    using run_yields_only_after_marker [where line = ?c] c by simp
  show ?thesis
    using run_yields_only_after_marker
        [where ls = "[?a, ?m, ?b, ?c]" and pre = "[?a]" and m = ?m and post = "[?b, ?c]"]
      rd pre m b c eb ec
    by simp
qed

text \<open>
  C2. When the producer writes the four lines \<open>part1\<close>, the marker line, \<open>hello\<close>
  followed by the reset sequence, and \<open>world\<close> (each ended by a newline) and then
  closes the channel, \<open>run\<close> yields exactly the two chunks \<open>hello\<close> and \<open>world\<close>
  with its newline, in that order.
\<close>

theorem run_synthetic_producer:
  "LowLevelDesignAgent_run self functional_requirements project_id
     (\<lambda>_. [ustr ''part1'' @ [10],
           ustr ''## Final Answer:'' @ [10],
           ustr ''hello'' @ [27] @ ustr ''[00m'' @ [10],
           ustr ''world'' @ [10]])
   = [ustr ''hello'', ustr ''world'' @ [10]]"
  by (simp add: run_consume ustr_def final_answer_marker_def emit_def endswith_def
      reset_newline_def drop_last_def suffix_def)

text \<open>
  C9. The flag is monotone. From a state in which it is set, it is still set after any
  further lines, and every line read is yielded through \<open>emit\<close>, a line that again
  contains the marker included. From a state in which it is not set, a line that
  contains the marker sets it and is itself not yielded, and every line read after it
  is yielded: the first marker line is the only line withheld on account of the
  marker.
\<close>

theorem final_answer_flag_monotone:
  "(final_answer_streaming st \<longrightarrow>
      final_answer_streaming (consume st ls)
      \<and> yielded (consume st ls) = yielded st @ map emit (takeWhile (\<lambda>l. l \<noteq> []) ls))
   \<and> (\<not> final_answer_streaming st \<and> py_in final_answer_marker m \<longrightarrow>
      final_answer_streaming (consume st (m # ls))
      \<and> yielded (consume st (m # ls)) = yielded st @ map emit (takeWhile (\<lambda>l. l \<noteq> []) ls))"
  by (simp add: consume_flag_set consume_marker_line del: consume.simps)

theorem final_answer_flag_monotone_witness:
  "\<not> final_answer_streaming \<lparr> final_answer_streaming = False, yielded = [] \<rparr>
   \<and> py_in final_answer_marker (ustr ''## Final Answer:'' @ [10])
   \<and> yielded (consume \<lparr> final_answer_streaming = False, yielded = [] \<rparr>
        [ustr ''## Final Answer:'' @ [10], ustr ''step one'' @ [10],
         ustr ''## Final Answer: again'' @ [10], ustr ''step two'' @ [10]])
      = [ustr ''step one'' @ [10], ustr ''## Final Answer: again'' @ [10],
         ustr ''step two'' @ [10]]
   \<and> final_answer_streaming (consume \<lparr> final_answer_streaming = True, yielded = [] \<rparr>
        [ustr ''## Final Answer: again'' @ [10]])"
proof -
  let ?s0 = "\<lparr> final_answer_streaming = False, yielded = [] \<rparr>"
  let ?s1 = "\<lparr> final_answer_streaming = True, yielded = [] \<rparr>"
  let ?m = "ustr ''## Final Answer:'' @ [10]"
  let ?ls = "[ustr ''step one'' @ [10], ustr ''## Final Answer: again'' @ [10],
              ustr ''step two'' @ [10]]"
  have m: "py_in final_answer_marker ?m"
    by (simp add: ustr_def final_answer_marker_def)
  have e: "emit (ustr ''step one'' @ [10]) = ustr ''step one'' @ [10]"
    "emit (ustr ''## Final Answer: again'' @ [10]) = ustr ''## Final Answer: again'' @ [10]"
    "emit (ustr ''step two'' @ [10]) = ustr ''step two'' @ [10]"
    by (simp_all add: ustr_def emit_def endswith_def reset_newline_def suffix_def)
  have n: "\<not> final_answer_streaming ?s0"
    by simp
  have "yielded (consume ?s0 (?m # ?ls)) =
          yielded ?s0 @ map emit (takeWhile (\<lambda>l. l \<noteq> []) ?ls)"
    using final_answer_flag_monotone [where st = ?s0 and m = ?m and ls = ?ls] n m by blast
  then have y: "yielded (consume ?s0 (?m # ?ls)) = ?ls"
    by (simp add: e del: consume.simps)
  have f: "final_answer_streaming (consume ?s1 [ustr ''## Final Answer: again'' @ [10]])"
    using final_answer_flag_monotone
        [where st = ?s1 and ls = "[ustr ''## Final Answer: again'' @ [10]]"]
    by (simp del: consume.simps)
  show ?thesis
    using n m y f by (simp del: consume.simps)
qed


section \<open>Properties of the agent and task definitions\<close>

lemma init_Inr:
  "LowLevelDesignAgent_init parse env db l uid = Inr self \<Longrightarrow>
   get_nodes_from_tags self = get_nodes_from_tags_tool db uid
   \<and> ask_knowledge_graph_queries self = get_ask_knowledge_graph_queries_tool db uid
   \<and> LowLevelDesignAgent.get_code_from_node_id self = get_code_from_node_id_tool db uid
   \<and> LowLevelDesignAgent.get_code_from_probable_node_name self =
       get_code_from_probable_node_name_tool db uid
   \<and> get_code_file_structure self = get_code_file_structure_tool db
   \<and> get_node_neighbours_from_node_id self = get_node_neighbours_from_node_id_tool db
   \<and> LowLevelDesignAgent.webpage_extractor_tool self =
       (if truthy (getenv env ''FIRECRAWL_API_KEY'')
        then Some (tool.webpage_extractor_tool db uid) else None)
   \<and> LowLevelDesignAgent.github_tool self =
       (if truthy (getenv env ''GITHUB_APP_ID'')
        then Some (tool.github_tool db uid) else None)"
  by (auto simp: LowLevelDesignAgent_init_def split: sum.splits)

lemma if_hasattr_set: "set (if_hasattr a) = set_option a"
  by (cases a) (simp_all add: if_hasattr_def)

lemma truthy_iff: "truthy (getenv env k) \<longleftrightarrow> (\<exists>v. env k = Some v \<and> v \<noteq> [])"
  by (cases "env k") (simp_all add: truthy_def getenv_def)

lemma analyst_tools:
  assumes "LowLevelDesignAgent_init parse env db l uid = Inr self"
  shows "set (tools (fst (LowLevelDesignAgent_create_agents self))) =
     { get_nodes_from_tags_tool db uid, get_ask_knowledge_graph_queries_tool db uid,
       get_code_from_node_id_tool db uid, get_code_from_probable_node_name_tool db uid,
       get_code_file_structure_tool db }
     \<union> (if truthy (getenv env ''FIRECRAWL_API_KEY'')
        then {tool.webpage_extractor_tool db uid} else {})
     \<union> (if truthy (getenv env ''GITHUB_APP_ID'') then {tool.github_tool db uid} else {})"
  using init_Inr [OF assms]
  by (simp add: LowLevelDesignAgent_create_agents_def codebase_analyst_def if_hasattr_set)

lemma unit_test_expert_tools:
  "set (tools (UnitTestAgent_create_agents (UnitTestAgent_init env db l uid))) =
     { get_code_from_node_id_tool db uid, get_code_from_probable_node_name_tool db uid }
     \<union> (if truthy (getenv env ''FIRECRAWL_API_KEY'')
        then {tool.webpage_extractor_tool db uid} else {})
     \<union> (if truthy (getenv env ''GITHUB_APP_ID'') then {tool.github_tool db uid} else {})"
  by (simp add: UnitTestAgent_create_agents_def UnitTestAgent_init_def if_hasattr_set)

lemma init_succeeds_iff:
  "(\<exists>self. LowLevelDesignAgent_init parse env db l uid = Inr self) \<longleftrightarrow>
     (env ''MAX_ITER'' = None \<or> (\<exists>v n. env ''MAX_ITER'' = Some v \<and> parse v = Some n))"
  by (cases "env ''MAX_ITER''")
     (auto simp: LowLevelDesignAgent_init_def py_int_def getenv_default_def
           split: sum.splits option.splits)

text \<open>
  C8. In the design pipeline, for an agent object built by \<open>__init__\<close>: the Codebase
  Analyst is constructed with delegation disallowed and the Design Planner with
  delegation allowed; the node-neighbour-lookup adapter is in the planner's tool list and
  in no form in the analyst's; \<open>create_tasks\<close> returns two tasks, the analysis task
  (agent: the analyst, no context) followed by the design-plan task (agent: the planner),
  whose context is exactly the analysis task; and \<open>run\<close> hands the executor the
  sequential crew of these two agents and these two tasks.
\<close>

theorem design_pipeline_shape:
  assumes "LowLevelDesignAgent_init parse env db l uid = Inr self"
    and "LowLevelDesignAgent_create_agents self = (analyst, planner)"
    and "LowLevelDesignAgent_create_tasks functional_requirements project_id analyst planner = ts"
  shows "role analyst = ''Codebase Analyst'' \<and> \<not> allow_delegation analyst
    \<and> role planner = ''Design Planner'' \<and> allow_delegation planner
    \<and> get_node_neighbours_from_node_id_tool db \<in> set (tools planner)
    \<and> (\<forall>d. get_node_neighbours_from_node_id_tool d \<notin> set (tools analyst))
    \<and> length ts = 2
    \<and> agent (ts ! 0) = analyst \<and> context' (ts ! 0) = None
    \<and> agent (ts ! 1) = planner \<and> context' (ts ! 1) = Some [ts ! 0]
    \<and> LowLevelDesignAgent_run self functional_requirements project_id stdout_lines =
        yielded (consume \<lparr> final_answer_streaming = False, yielded = [] \<rparr>
          (stdout_lines \<lparr> agents = [analyst, planner], tasks = ts,
                           process = sequential, verbose = True \<rparr>))"
proof -
  note f = init_Inr [OF assms(1)]
  have a: "analyst = codebase_analyst self" and p: "planner = design_planner self"
    using assms(2) by (simp_all add: LowLevelDesignAgent_create_agents_def)
  have t: "ts = [analyze_codebase_task functional_requirements project_id analyst,
                 create_design_plan_task functional_requirements project_id analyst planner]"
    using assms(3) by (simp add: LowLevelDesignAgent_create_tasks_def)
  have "role analyst = ''Codebase Analyst'' \<and> \<not> allow_delegation analyst"
    by (simp add: a codebase_analyst_def)
  moreover have "role planner = ''Design Planner'' \<and> allow_delegation planner"
    by (simp add: p design_planner_def)
  moreover have "get_node_neighbours_from_node_id_tool db \<in> set (tools planner)"
    by (simp add: p design_planner_def f)
  moreover have "\<forall>d. get_node_neighbours_from_node_id_tool d \<notin> set (tools analyst)"
    by (simp add: a codebase_analyst_def f if_hasattr_def)
  moreover have "length ts = 2 \<and> agent (ts ! 0) = analyst \<and> context' (ts ! 0) = None
      \<and> agent (ts ! 1) = planner \<and> context' (ts ! 1) = Some [ts ! 0]"
    by (simp add: t analyze_codebase_task_def create_design_plan_task_def)
  moreover have "LowLevelDesignAgent_run self functional_requirements project_id stdout_lines =
        yielded (consume \<lparr> final_answer_streaming = False, yielded = [] \<rparr>
          (stdout_lines \<lparr> agents = [analyst, planner], tasks = ts,
                           process = sequential, verbose = True \<rparr>))"
    using assms(2,3) by (simp add: LowLevelDesignAgent_run_def)
  ultimately show ?thesis by blast
qed

theorem design_pipeline_shape_witness:
  "LowLevelDesignAgent_init (\<lambda>s. None) Map.empty 0 ''model'' ''user'' =
     Inr (projr (LowLevelDesignAgent_init (\<lambda>s. None) Map.empty 0 ''model'' ''user''))
   \<and> \<not> allow_delegation
        (fst (LowLevelDesignAgent_create_agents
          (projr (LowLevelDesignAgent_init (\<lambda>s. None) Map.empty 0 ''model'' ''user''))))
   \<and> allow_delegation
        (snd (LowLevelDesignAgent_create_agents
          (projr (LowLevelDesignAgent_init (\<lambda>s. None) Map.empty 0 ''model'' ''user''))))
   \<and> get_node_neighbours_from_node_id_tool 0 \<in> set (tools
        (snd (LowLevelDesignAgent_create_agents
          (projr (LowLevelDesignAgent_init (\<lambda>s. None) Map.empty 0 ''model'' ''user'')))))
   \<and> get_node_neighbours_from_node_id_tool 0 \<notin> set (tools
        (fst (LowLevelDesignAgent_create_agents
          (projr (LowLevelDesignAgent_init (\<lambda>s. None) Map.empty 0 ''model'' ''user'')))))"
proof -
  let ?self = "projr (LowLevelDesignAgent_init (\<lambda>s. None) Map.empty 0 ''model'' ''user'')"
  let ?agents = "LowLevelDesignAgent_create_agents ?self"
  have a: "?agents = (fst ?agents, snd ?agents)"
    by simp
  show ?thesis
    using design_pipeline_shape [OF sample_design_agent a refl] sample_design_agent
    by blast
qed



lemma max_iter_arguments:
  "Agent.max_iter (UnitTestAgent_create_agents (UnitTestAgent_init env db l uid))
     = Some (getenv_default env ''MAX_ITER'' (PyInt 15))
   \<and> Agent.max_iter (design_planner design_agent) = None
   \<and> Agent.max_iter (codebase_analyst design_agent)
     = Some (PyInt (LowLevelDesignAgent.max_iter design_agent))"
  by (simp add: UnitTestAgent_init_def UnitTestAgent_create_agents_def
      design_planner_def codebase_analyst_def)

lemma init_max_iter:
  "LowLevelDesignAgent_init parse env db l uid = Inr self \<Longrightarrow>
   py_int parse (getenv_default env ''MAX_ITER'' (PyInt 10))
     = Inr (LowLevelDesignAgent.max_iter self)"
  by (auto simp: LowLevelDesignAgent_init_def split: sum.splits)

lemma Agent_construct_budget:
  "Agent_construct d to_int kwargs = Inr a \<longleftrightarrow>
     (\<exists>n. (case Agent.max_iter kwargs of None \<Rightarrow> Some d | Some v \<Rightarrow> to_int v) = Some n
        \<and> a = \<lparr> AgentDefinition.role = Agent.role kwargs,
                AgentDefinition.goal = Agent.goal kwargs,
                persona = backstory kwargs,
                AgentDefinition.tools = Agent.tools kwargs,
                AgentDefinition.allow_delegation = Agent.allow_delegation kwargs,
                iteration_budget = n,
                model_handle = Agent.llm kwargs \<rparr>)"
  by (auto simp: Agent_construct_def split: option.splits)

text \<open>
  C6. Every agent definition that is constructed carries an int iteration budget,
  whatever \<open>MAX_ITER\<close> is, under a conversion that keeps an int. For a design agent
  object built by \<open>__init__\<close>, the Codebase Analyst is constructed with the int that
  \<open>int(os.getenv("MAX_ITER", 10))\<close> gave, and the Design Planner, to which no
  budget is passed, with the class's default. The Unit Test Expert is passed what
  \<open>os.getenv("MAX_ITER", 15)\<close> returned: with the variable unset it is constructed
  with the budget 15; with the variable set to a string that the conversion accepts, with
  the int the conversion gives; and with any other string no agent is constructed.
\<close>

theorem constructed_agents_carry_int_budget:
  assumes "\<forall>n. to_int (PyInt n) = Some n"
  shows
    "(LowLevelDesignAgent_init parse env db l uid = Inr self \<longrightarrow>
        py_int parse (getenv_default env ''MAX_ITER'' (PyInt 10))
          = Inr (LowLevelDesignAgent.max_iter self)
        \<and> (\<exists>a. Agent_construct default_max_iter to_int (codebase_analyst self) = Inr a
               \<and> iteration_budget a = LowLevelDesignAgent.max_iter self)
        \<and> (\<exists>a. Agent_construct default_max_iter to_int (design_planner self) = Inr a
               \<and> iteration_budget a = default_max_iter))
     \<and> (env ''MAX_ITER'' = None \<longrightarrow>
        (\<exists>a. Agent_construct default_max_iter to_int
                (UnitTestAgent_create_agents (UnitTestAgent_init env db l uid)) = Inr a
             \<and> iteration_budget a = 15))
     \<and> (env ''MAX_ITER'' = Some v \<and> to_int (PyStr v) = Some n \<longrightarrow>
        (\<exists>a. Agent_construct default_max_iter to_int
                (UnitTestAgent_create_agents (UnitTestAgent_init env db l uid)) = Inr a
             \<and> iteration_budget a = n))
     \<and> (env ''MAX_ITER'' = Some v \<and> to_int (PyStr v) = None \<longrightarrow>
        Agent_construct default_max_iter to_int
          (UnitTestAgent_create_agents (UnitTestAgent_init env db l uid))
          = Inl ValidationError)"
proof -
  have analyst: "\<exists>a. Agent_construct default_max_iter to_int (codebase_analyst self) = Inr a
      \<and> iteration_budget a = LowLevelDesignAgent.max_iter self"
    using assms by (simp add: Agent_construct_budget max_iter_arguments)
  have planner: "\<exists>a. Agent_construct default_max_iter to_int (design_planner self) = Inr a
      \<and> iteration_budget a = default_max_iter"
    by (simp add: Agent_construct_budget max_iter_arguments)
  have unset: "env ''MAX_ITER'' = None \<longrightarrow>
      (\<exists>a. Agent_construct default_max_iter to_int
              (UnitTestAgent_create_agents (UnitTestAgent_init env db l uid)) = Inr a
           \<and> iteration_budget a = 15)"
    using assms by (simp add: Agent_construct_budget max_iter_arguments getenv_default_def)
  have accepted: "env ''MAX_ITER'' = Some v \<and> to_int (PyStr v) = Some n \<longrightarrow>
      (\<exists>a. Agent_construct default_max_iter to_int
              (UnitTestAgent_create_agents (UnitTestAgent_init env db l uid)) = Inr a
           \<and> iteration_budget a = n)"
    by (simp add: Agent_construct_budget max_iter_arguments getenv_default_def)
  have refused: "env ''MAX_ITER'' = Some v \<and> to_int (PyStr v) = None \<longrightarrow>
      Agent_construct default_max_iter to_int
        (UnitTestAgent_create_agents (UnitTestAgent_init env db l uid))
        = Inl ValidationError"
    by (simp add: Agent_construct_def max_iter_arguments getenv_default_def)
  show ?thesis
    using init_max_iter [of parse env db l uid self] analyst planner unset accepted refused
    by blast
qed

theorem constructed_agents_carry_int_budget_witness:
  "(\<forall>n. lax_to_int (map_of [(''20'', 20)]) (PyInt n) = Some n)
   \<and> map_of [(''MAX_ITER'', ''20'')] ''MAX_ITER'' = Some ''20''
   \<and> lax_to_int (map_of [(''20'', 20)]) (PyStr ''20'') = Some 20
   \<and> Agent_construct 25 (lax_to_int (map_of [(''20'', 20)]))
        (UnitTestAgent_create_agents
          (UnitTestAgent_init (map_of [(''MAX_ITER'', ''20'')]) 0 ''model'' ''user''))
      = Inr (projr (Agent_construct 25 (lax_to_int (map_of [(''20'', 20)]))
          (UnitTestAgent_create_agents
            (UnitTestAgent_init (map_of [(''MAX_ITER'', ''20'')]) 0 ''model'' ''user''))))
   \<and> iteration_budget (projr (Agent_construct 25 (lax_to_int (map_of [(''20'', 20)]))
        (UnitTestAgent_create_agents
          (UnitTestAgent_init (map_of [(''MAX_ITER'', ''20'')]) 0 ''model'' ''user''))))
      = 20"
proof -
  let ?to_int = "lax_to_int (map_of [(''20'', 20)])"
  let ?env = "map_of [(''MAX_ITER'', ''20'')]"
  have k: "\<forall>n. ?to_int (PyInt n) = Some n"
    by (simp add: lax_to_int_def)
  have e: "?env ''MAX_ITER'' = Some ''20''"
    by simp
  have c: "?to_int (PyStr ''20'') = Some 20"
    by (simp add: lax_to_int_def)
  have "\<exists>a. Agent_construct 25 ?to_int
          (UnitTestAgent_create_agents (UnitTestAgent_init ?env 0 ''model'' ''user'')) = Inr a
        \<and> iteration_budget a = 20"
    using constructed_agents_carry_int_budget
        [OF k, where env = ?env and v = "''20''" and n = 20 and default_max_iter = 25
           and db = 0 and l = "''model''" and uid = "''user''"] e c
    by blast
  then obtain a where
    a: "Agent_construct 25 ?to_int
          (UnitTestAgent_create_agents (UnitTestAgent_init ?env 0 ''model'' ''user'')) = Inr a"
    and b: "iteration_budget a = 20"
    by blast
  have p: "projr (Inr a :: error + AgentDefinition) = a"
    by simp
  from k e c b show ?thesis
    unfolding a p by blast
qed

text \<open>
  C7, as amended. Whatever \<open>FIRECRAWL_API_KEY\<close> and \<open>GITHUB_APP_ID\<close> are, they
  cause no error: the unit-test agent object is always constructed, and the design agent
  object is constructed exactly when \<open>MAX_ITER\<close> is unset or parses as an integer.
  The webpage-extractor (respectively GitHub) adapter appears in the Codebase Analyst's
  and in the Unit Test Expert's tool list if and only if the corresponding variable is set
  to a non-empty string.
\<close>

theorem optional_adapters_iff_nonempty:
  "(LowLevelDesignAgent_init parse env db l uid = Inr self \<longrightarrow>
      ((\<exists>d u. tool.webpage_extractor_tool d u
                 \<in> set (tools (fst (LowLevelDesignAgent_create_agents self))))
         \<longleftrightarrow> (\<exists>v. env ''FIRECRAWL_API_KEY'' = Some v \<and> v \<noteq> []))
      \<and> ((\<exists>d u. tool.github_tool d u
                 \<in> set (tools (fst (LowLevelDesignAgent_create_agents self))))
         \<longleftrightarrow> (\<exists>v. env ''GITHUB_APP_ID'' = Some v \<and> v \<noteq> [])))
   \<and> ((\<exists>d u. tool.webpage_extractor_tool d u
                 \<in> set (tools (UnitTestAgent_create_agents (UnitTestAgent_init env db l uid))))
         \<longleftrightarrow> (\<exists>v. env ''FIRECRAWL_API_KEY'' = Some v \<and> v \<noteq> []))
   \<and> ((\<exists>d u. tool.github_tool d u
                 \<in> set (tools (UnitTestAgent_create_agents (UnitTestAgent_init env db l uid))))
         \<longleftrightarrow> (\<exists>v. env ''GITHUB_APP_ID'' = Some v \<and> v \<noteq> []))
   \<and> ((\<exists>self. LowLevelDesignAgent_init parse env db l uid = Inr self) \<longleftrightarrow>
        (env ''MAX_ITER'' = None \<or> (\<exists>v n. env ''MAX_ITER'' = Some v \<and> parse v = Some n)))"
proof -
  have 1: "LowLevelDesignAgent_init parse env db l uid = Inr self \<longrightarrow>
      ((\<exists>d u. tool.webpage_extractor_tool d u
                 \<in> set (tools (fst (LowLevelDesignAgent_create_agents self))))
         \<longleftrightarrow> (\<exists>v. env ''FIRECRAWL_API_KEY'' = Some v \<and> v \<noteq> []))
      \<and> ((\<exists>d u. tool.github_tool d u
                 \<in> set (tools (fst (LowLevelDesignAgent_create_agents self))))
         \<longleftrightarrow> (\<exists>v. env ''GITHUB_APP_ID'' = Some v \<and> v \<noteq> []))"
    by (simp add: analyst_tools truthy_iff [symmetric])
  have 2: "(\<exists>d u. tool.webpage_extractor_tool d u
                 \<in> set (tools (UnitTestAgent_create_agents (UnitTestAgent_init env db l uid))))
         \<longleftrightarrow> (\<exists>v. env ''FIRECRAWL_API_KEY'' = Some v \<and> v \<noteq> [])"
    by (simp add: unit_test_expert_tools truthy_iff [symmetric])
  have 3: "(\<exists>d u. tool.github_tool d u
                 \<in> set (tools (UnitTestAgent_create_agents (UnitTestAgent_init env db l uid))))
         \<longleftrightarrow> (\<exists>v. env ''GITHUB_APP_ID'' = Some v \<and> v \<noteq> [])"
    by (simp add: unit_test_expert_tools truthy_iff [symmetric])
  show ?thesis
    using 1 2 3 init_succeeds_iff [of parse env db l uid] by blast
qed

theorem optional_adapters_iff_nonempty_witness:
  "LowLevelDesignAgent_init (map_of [(''20'', 20)])
       (map_of [(''FIRECRAWL_API_KEY'', ''fc-key''), (''MAX_ITER'', ''20'')]) 0 ''model'' ''user''
     = Inr (projr (LowLevelDesignAgent_init (map_of [(''20'', 20)])
        (map_of [(''FIRECRAWL_API_KEY'', ''fc-key''), (''MAX_ITER'', ''20'')]) 0 ''model'' ''user''))
   \<and> (\<exists>d u. tool.webpage_extractor_tool d u \<in> set (tools (fst (LowLevelDesignAgent_create_agents
        (projr (LowLevelDesignAgent_init (map_of [(''20'', 20)])
          (map_of [(''FIRECRAWL_API_KEY'', ''fc-key''), (''MAX_ITER'', ''20'')])
          0 ''model'' ''user''))))))
   \<and> \<not> (\<exists>d u. tool.github_tool d u \<in> set (tools (fst (LowLevelDesignAgent_create_agents
        (projr (LowLevelDesignAgent_init (map_of [(''20'', 20)])
          (map_of [(''FIRECRAWL_API_KEY'', ''fc-key''), (''MAX_ITER'', ''20'')])
          0 ''model'' ''user''))))))"
proof -
  let ?env = "map_of [(''FIRECRAWL_API_KEY'', ''fc-key''), (''MAX_ITER'', ''20'')]"
  let ?init = "LowLevelDesignAgent_init (map_of [(''20'', 20)]) ?env 0 ''model'' ''user''"
  have i: "?init = Inr (projr ?init)"
    by (simp add: LowLevelDesignAgent_init_def py_int_def getenv_default_def)
  have f: "\<exists>v. ?env ''FIRECRAWL_API_KEY'' = Some v \<and> v \<noteq> []"
    by simp
  have g: "\<not> (\<exists>v. ?env ''GITHUB_APP_ID'' = Some v \<and> v \<noteq> [])"
    by simp
  show ?thesis
    using optional_adapters_iff_nonempty
        [where parse = "map_of [(''20'', 20)]" and env = ?env and db = 0 and l = "''model''"
           and uid = "''user''" and self = "projr ?init"] i f g
    by blast
qed

text \<open>
  C7 as stated fails for a variable that is set to the empty string: the variable is
  present in the environment, and the adapter is in neither tool list.
\<close>

theorem empty_credential_counterexample:
  "map_of [(''FIRECRAWL_API_KEY'', [])] ''FIRECRAWL_API_KEY'' \<noteq> None
   \<and> tool.webpage_extractor_tool 0 ''user'' \<notin> set (tools
        (UnitTestAgent_create_agents
          (UnitTestAgent_init (map_of [(''FIRECRAWL_API_KEY'', [])]) 0 ''model'' ''user'')))
   \<and> tool.webpage_extractor_tool 0 ''user'' \<notin> set (tools
        (codebase_analyst (projr (LowLevelDesignAgent_init (map_of [])
          (map_of [(''FIRECRAWL_API_KEY'', [])]) 0 ''model'' ''user''))))"
  by (simp add: UnitTestAgent_create_agents_def UnitTestAgent_init_def
      LowLevelDesignAgent_init_def codebase_analyst_def py_int_def getenv_default_def
      getenv_def truthy_def if_hasattr_def)


section \<open>Properties of the test pipeline's entry point\<close>




section \<open>Properties of the provider endpoint\<close>

text \<open>
  C10. The result of the set-global-ai-provider endpoint does not depend on the request
  body: two requests that differ only in the body give the same result. For an
  authenticated user the provider passed to the controller is the value of
  \<open>LITELLM_PROVIDER\<close> in the environment of the module's import; a \<open>user\<close>
  dictionary without the key \<open>user_id\<close> raises \<open>KeyError\<close>, again whatever the
  body.
\<close>

theorem set_global_ai_provider_ignores_request:
  "set_global_ai_provider (litellm_provider import_env) controller request1 db user
     = set_global_ai_provider (litellm_provider import_env) controller request2 db user
   \<and> (user ''user_id'' = Some uid \<longrightarrow>
        set_global_ai_provider (litellm_provider import_env) controller request1 db user
          = Inr (controller
              (controller_set_global_ai_provider db uid uid (import_env ''LITELLM_PROVIDER''))))
   \<and> (user ''user_id'' = None \<longrightarrow>
        set_global_ai_provider (litellm_provider import_env) controller request1 db user
          = Inl (KeyError ''user_id''))"
  by (simp add: set_global_ai_provider_def litellm_provider_def getenv_def)

theorem set_global_ai_provider_ignores_request_witness:
  "map_of [(''user_id'', ''u-1'')] ''user_id'' = Some ''u-1''
   \<and> set_global_ai_provider (litellm_provider (map_of [(''LITELLM_PROVIDER'', ''ollama'')]))
        id ''openai'' 0 (map_of [(''user_id'', ''u-1'')])
     = Inr (controller_set_global_ai_provider 0 ''u-1'' ''u-1'' (Some ''ollama''))
   \<and> set_global_ai_provider (litellm_provider (map_of [(''LITELLM_PROVIDER'', ''ollama'')]))
        id ''anthropic'' 0 (map_of [(''user_id'', ''u-1'')])
     = Inr (controller_set_global_ai_provider 0 ''u-1'' ''u-1'' (Some ''ollama''))
   \<and> set_global_ai_provider (litellm_provider (map_of [(''LITELLM_PROVIDER'', ''ollama'')]))
        id ''openai'' 0 (map_of [])
     = Inl (KeyError ''user_id'')"
proof -
  let ?env = "map_of [(''LITELLM_PROVIDER'', ''ollama'')]"
  let ?user = "map_of [(''user_id'', ''u-1'')]"
  have u: "?user ''user_id'' = Some ''u-1''"
    by simp
  have n: "map_of [] ''user_id'' = (None :: string option)"
    by simp
  have "set_global_ai_provider (litellm_provider ?env) id ''openai'' 0 ?user
      = Inr (id (controller_set_global_ai_provider 0 ''u-1'' ''u-1''
                  (?env ''LITELLM_PROVIDER'')))"
    using set_global_ai_provider_ignores_request
        [where import_env = ?env and controller = id and ?request1.0 = "''openai''"
           and ?request2.0 = "''anthropic''" and db = 0 and user = ?user and uid = "''u-1''"] u
    by blast
  then have a: "set_global_ai_provider (litellm_provider ?env) id ''openai'' 0 ?user
      = Inr (controller_set_global_ai_provider 0 ''u-1'' ''u-1'' (Some ''ollama''))"
    by simp
  have b: "set_global_ai_provider (litellm_provider ?env) id ''anthropic'' 0 ?user
      = set_global_ai_provider (litellm_provider ?env) id ''openai'' 0 ?user"
    using set_global_ai_provider_ignores_request
        [where import_env = ?env and controller = id and ?request1.0 = "''anthropic''"
           and ?request2.0 = "''openai''" and db = 0 and user = ?user]
    by blast
  have c: "set_global_ai_provider (litellm_provider ?env) id ''openai'' 0 (map_of [])
      = Inl (KeyError ''user_id'')"
    using set_global_ai_provider_ignores_request
        [where import_env = ?env and controller = id and ?request1.0 = "''openai''"
           and ?request2.0 = "''openai''" and db = 0 and user = "map_of []"] n
    by blast
  from b a have b': "set_global_ai_provider (litellm_provider ?env) id ''anthropic'' 0 ?user
      = Inr (controller_set_global_ai_provider 0 ''u-1'' ''u-1'' (Some ''ollama''))"
    by (rule trans)
  from u a b' c show ?thesis
    by blast
qed


section \<open>Properties of the design-plan schema\<close>

lemma and_then_Inr_iff: "and_then r f = Inr y \<longleftrightarrow> (\<exists>x. r = Inr x \<and> f x = Inr y)"
  by (cases r) (simp_all add: and_then_def)

lemma validate_each_iff:
  "validate_each v js = Inr xs \<longleftrightarrow> list_all2 (\<lambda>j x. v j = Inr x) js xs"
proof (induction js arbitrary: xs)
  case Nil
  show ?case by auto
next
  case (Cons j js)
  show ?case
    by (auto simp: and_then_Inr_iff Cons.IH list_all2_Cons1)
qed

lemma validate_values_iff:
  "validate_values v kvs = Inr ys \<longleftrightarrow>
     list_all2 (\<lambda>kj kx. fst kx = fst kj \<and> v (snd kj) = Inr (snd kx)) kvs ys"
proof (induction kvs arbitrary: ys)
  case Nil
  show ?case by auto
next
  case (Cons kj kvs)
  show ?case
    by (cases kj) (auto simp: and_then_Inr_iff Cons.IH list_all2_Cons1)
qed

lemma validate_List_iff:
  "validate_List v j = Inr xs \<longleftrightarrow>
     (\<exists>js. j = JList js \<and> list_all2 (\<lambda>j x. v j = Inr x) js xs)"
  by (cases j) (simp_all add: validate_List_def validate_each_iff)

lemma validate_Dict_iff:
  "validate_Dict v j = Inr ys \<longleftrightarrow>
     (\<exists>kvs. j = JObject kvs
        \<and> list_all2 (\<lambda>kj kx. fst kx = fst kj \<and> v (snd kj) = Inr (snd kx)) kvs ys)"
  by (cases j) (simp_all add: validate_Dict_def validate_values_iff)

lemma required_field_iff:
  "required_field kvs name v = Inr x \<longleftrightarrow> (\<exists>j. map_of kvs name = Some j \<and> v j = Inr x)"
  by (cases "map_of kvs name") (simp_all add: required_field_def)

lemma validate_DesignStep_iff:
  "validate_DesignStep vint vstr j = Inr s \<longleftrightarrow>
     (\<exists>kvs jn jd jfs jcs.
        j = JObject kvs
        \<and> map_of kvs ''step_number'' = Some jn \<and> vint jn = Inr (step_number s)
        \<and> map_of kvs ''description'' = Some jd \<and> vstr jd = Inr (DesignStep.description s)
        \<and> map_of kvs ''relevant_files'' = Some (JList jfs)
        \<and> list_all2 (\<lambda>j x. vstr j = Inr x) jfs (relevant_files s)
        \<and> map_of kvs ''code_changes'' = Some (JObject jcs)
        \<and> list_all2 (\<lambda>kj kx. fst kx = fst kj \<and> vstr (snd kj) = Inr (snd kx))
              jcs (code_changes s))"
  by (cases s; cases j)
     (auto simp: validate_DesignStep_def and_then_Inr_iff required_field_iff
        validate_List_iff validate_Dict_iff)

lemma validate_LowLevelDesignPlan_iff:
  "validate_LowLevelDesignPlan vint vstr j = Inr p \<longleftrightarrow>
     (\<exists>kvs jf jo jss jpc.
        j = JObject kvs
        \<and> map_of kvs ''feature_name'' = Some jf \<and> vstr jf = Inr (feature_name p)
        \<and> map_of kvs ''overview'' = Some jo \<and> vstr jo = Inr (overview p)
        \<and> map_of kvs ''design_steps'' = Some (JList jss)
        \<and> list_all2 (\<lambda>j s. validate_DesignStep vint vstr j = Inr s) jss (design_steps p)
        \<and> map_of kvs ''potential_challenges'' = Some (JList jpc)
        \<and> list_all2 (\<lambda>j x. vstr j = Inr x) jpc (potential_challenges p))"
  by (cases p; cases j)
     (auto simp: validate_LowLevelDesignPlan_def and_then_Inr_iff required_field_iff
        validate_List_iff)

lemma validate_each_map:
  "\<forall>x. v (f x) = Inr x \<Longrightarrow> validate_each v (map f xs) = Inr xs"
  by (induction xs) (simp_all add: and_then_def)

lemma validate_values_map:
  "\<forall>x. v (f x) = Inr x \<Longrightarrow> validate_values v (map (\<lambda>(k, x). (k, f x)) kvs) = Inr kvs"
  by (induction kvs) (auto simp: and_then_def)

lemma validate_dump_DesignStep:
  assumes "\<forall>n. vint (JInt n) = Inr n" and "\<forall>s. vstr (JStr s) = Inr s"
  shows "validate_DesignStep vint vstr (dump_DesignStep s) = Inr s"
  using assms
  by (simp add: validate_DesignStep_def dump_DesignStep_def required_field_def and_then_def
      validate_List_def validate_Dict_def validate_each_map validate_values_map)

lemma validate_dump_LowLevelDesignPlan:
  assumes "\<forall>n. vint (JInt n) = Inr n" and "\<forall>s. vstr (JStr s) = Inr s"
  shows "validate_LowLevelDesignPlan vint vstr (dump_LowLevelDesignPlan p) = Inr p"
  using assms
  by (simp add: validate_LowLevelDesignPlan_def dump_LowLevelDesignPlan_def
      required_field_def and_then_def validate_List_def validate_each_map
      validate_dump_DesignStep)

text \<open>
  C5, as amended. Validation relates no two steps of a plan: it constrains neither the
  uniqueness nor the order of the \<open>step_number\<close> values. A raw output is accepted as
  the plan \<open>p\<close> exactly when it is an object in which \<open>feature_name\<close> and
  \<open>overview\<close> are present and pass the str validator with the values of \<open>p\<close>,
  \<open>potential_challenges\<close> is a list whose elements pass it, and \<open>design_steps\<close> is
  a list whose elements validate, one by one and in order, to the steps of \<open>p\<close>; and
  a raw step is accepted as the step \<open>s\<close> exactly when it is an object in which
  \<open>step_number\<close> passes the int validator with the value of \<open>s\<close>, \<open>description\<close>
  the str validator, \<open>relevant_files\<close> is a list of elements that pass the str
  validator and \<open>code_changes\<close> an object whose values pass it. Hence, under any
  scalar policy that keeps an int given for an int field and a string given for a str
  field, every plan is accepted unchanged from its JSON form, whatever its step numbers
  are, duplicated or decreasing ones included.
\<close>

theorem validation_checks_types_only:
  "(validate_LowLevelDesignPlan vint vstr j = Inr p \<longleftrightarrow>
      (\<exists>kvs jf jo jss jpc.
         j = JObject kvs
         \<and> map_of kvs ''feature_name'' = Some jf \<and> vstr jf = Inr (feature_name p)
         \<and> map_of kvs ''overview'' = Some jo \<and> vstr jo = Inr (overview p)
         \<and> map_of kvs ''design_steps'' = Some (JList jss)
         \<and> list_all2 (\<lambda>j s. validate_DesignStep vint vstr j = Inr s) jss (design_steps p)
         \<and> map_of kvs ''potential_challenges'' = Some (JList jpc)
         \<and> list_all2 (\<lambda>j x. vstr j = Inr x) jpc (potential_challenges p)))
   \<and> (validate_DesignStep vint vstr j' = Inr s \<longleftrightarrow>
      (\<exists>kvs jn jd jfs jcs.
         j' = JObject kvs
         \<and> map_of kvs ''step_number'' = Some jn \<and> vint jn = Inr (step_number s)
         \<and> map_of kvs ''description'' = Some jd \<and> vstr jd = Inr (DesignStep.description s)
         \<and> map_of kvs ''relevant_files'' = Some (JList jfs)
         \<and> list_all2 (\<lambda>j x. vstr j = Inr x) jfs (relevant_files s)
         \<and> map_of kvs ''code_changes'' = Some (JObject jcs)
         \<and> list_all2 (\<lambda>kj kx. fst kx = fst kj \<and> vstr (snd kj) = Inr (snd kx))
               jcs (code_changes s)))
   \<and> ((\<forall>n. vint (JInt n) = Inr n) \<and> (\<forall>s. vstr (JStr s) = Inr s) \<longrightarrow>
        validate_LowLevelDesignPlan vint vstr (dump_LowLevelDesignPlan q) = Inr q)"
  using validate_LowLevelDesignPlan_iff [of vint vstr j p]
    validate_DesignStep_iff [of vint vstr j' s]
    validate_dump_LowLevelDesignPlan [of vint vstr q]
  by blast

theorem validation_checks_types_only_witness:
  "(\<forall>n. lax_int (map_of []) (JInt n) = Inr n) \<and> (\<forall>s. lax_str (JStr s) = Inr s)
   \<and> validate_LowLevelDesignPlan (lax_int (map_of [])) lax_str
        (dump_LowLevelDesignPlan
          \<lparr> feature_name = ''login'', overview = ''add a login form'',
            design_steps =
              [ \<lparr> step_number = 3, description = ''wire the route'',
                  relevant_files = [''app.py''], code_changes = [(''app.py'', ''+route'')] \<rparr>,
                \<lparr> step_number = 3, description = ''add the form'',
                  relevant_files = [''form.py''], code_changes = [] \<rparr> ],
            potential_challenges = [''sessions''] \<rparr>)
      = Inr \<lparr> feature_name = ''login'', overview = ''add a login form'',
            design_steps =
              [ \<lparr> step_number = 3, description = ''wire the route'',
                  relevant_files = [''app.py''], code_changes = [(''app.py'', ''+route'')] \<rparr>,
                \<lparr> step_number = 3, description = ''add the form'',
                  relevant_files = [''form.py''], code_changes = [] \<rparr> ],
            potential_challenges = [''sessions''] \<rparr>
   \<and> validate_LowLevelDesignPlan (lax_int (map_of [])) lax_str (JList [])
      \<noteq> Inr \<lparr> feature_name = ''login'', overview = ''add a login form'',
              design_steps = [], potential_challenges = [] \<rparr>
   \<and> validate_DesignStep (lax_int (map_of [(''2'', 2)])) lax_str
        (JObject [ (''step_number'', JStr ''2''), (''description'', JStr ''add the form''),
                   (''relevant_files'', JList []), (''code_changes'', JObject []) ])
      = Inr \<lparr> step_number = 2, description = ''add the form'',
              relevant_files = [], code_changes = [] \<rparr>
   \<and> validate_DesignStep (lax_int (map_of [(''2'', 2)])) lax_str
        (JObject [ (''step_number'', JNull), (''description'', JStr ''add the form''),
                   (''relevant_files'', JList []), (''code_changes'', JObject []) ])
      = Inl ValidationError"
proof -
  have i: "\<forall>n. lax_int (map_of []) (JInt n) = Inr n"
    by (simp add: lax_int_def)
  have s: "\<forall>s. lax_str (JStr s) = Inr s"
    by (simp add: lax_str_def)
  have r: "validate_LowLevelDesignPlan (lax_int (map_of [])) lax_str (JList [])
      \<noteq> Inr \<lparr> feature_name = ''login'', overview = ''add a login form'',
              design_steps = [], potential_challenges = [] \<rparr>"
    using validation_checks_types_only
        [where vint = "lax_int (map_of [])" and vstr = lax_str and j = "JList []"
           and p = "\<lparr> feature_name = ''login'', overview = ''add a login form'',
                      design_steps = [], potential_challenges = [] \<rparr>"]
    by blast
  have c: "validate_DesignStep (lax_int (map_of [(''2'', 2)])) lax_str
        (JObject [ (''step_number'', JStr ''2''), (''description'', JStr ''add the form''),
                   (''relevant_files'', JList []), (''code_changes'', JObject []) ])
      = Inr \<lparr> step_number = 2, description = ''add the form'',
              relevant_files = [], code_changes = [] \<rparr>"
    by (simp add: validate_DesignStep_def required_field_def and_then_def validate_List_def
        validate_Dict_def lax_int_def lax_str_def)
  have n: "validate_DesignStep (lax_int (map_of [(''2'', 2)])) lax_str
        (JObject [ (''step_number'', JNull), (''description'', JStr ''add the form''),
                   (''relevant_files'', JList []), (''code_changes'', JObject []) ])
      = Inl ValidationError"
    by (simp add: validate_DesignStep_def required_field_def and_then_def lax_int_def)
  show ?thesis
    using validation_checks_types_only [where vint = "lax_int (map_of [])" and vstr = lax_str]
      i s r c n
    by blast
qed

text \<open>
  C5 as stated fails: an output whose step numbers are 2, 1, 1 (neither distinct nor
  increasing) is accepted.
\<close>

theorem unordered_step_numbers_accepted:
  "validate_LowLevelDesignPlan (lax_int (map_of [])) lax_str
     (JObject
       [ (''feature_name'', JStr ''login''),
         (''overview'', JStr ''add a login form''),
         (''design_steps'', JList
            [ JObject [ (''step_number'', JInt 2), (''description'', JStr ''wire the route''),
                        (''relevant_files'', JList [JStr ''app.py'']),
                        (''code_changes'', JObject [(''app.py'', JStr ''+route'')]) ],
              JObject [ (''step_number'', JInt 1), (''description'', JStr ''add the form''),
                        (''relevant_files'', JList [JStr ''form.py'']),
                        (''code_changes'', JObject [(''form.py'', JStr ''+form'')]) ],
              JObject [ (''step_number'', JInt 1), (''description'', JStr ''add the test''),
                        (''relevant_files'', JList []),
                        (''code_changes'', JObject []) ] ]),
         (''potential_challenges'', JList []) ])
   = Inr \<lparr> feature_name = ''login'', overview = ''add a login form'',
           design_steps =
             [ \<lparr> step_number = 2, description = ''wire the route'',
                 relevant_files = [''app.py''], code_changes = [(''app.py'', ''+route'')] \<rparr>,
               \<lparr> step_number = 1, description = ''add the form'',
                 relevant_files = [''form.py''], code_changes = [(''form.py'', ''+form'')] \<rparr>,
               \<lparr> step_number = 1, description = ''add the test'',
                 relevant_files = [], code_changes = [] \<rparr> ],
           potential_challenges = [] \<rparr>
   \<and> \<not> distinct (map step_number
         [ \<lparr> step_number = 2, description = ''wire the route'',
             relevant_files = [''app.py''], code_changes = [(''app.py'', ''+route'')] \<rparr>,
           \<lparr> step_number = 1, description = ''add the form'',
             relevant_files = [''form.py''], code_changes = [(''form.py'', ''+form'')] \<rparr>,
           \<lparr> step_number = 1, description = ''add the test'',
             relevant_files = [], code_changes = [] \<rparr> ])
   \<and> \<not> sorted_wrt (<) (map step_number
         [ \<lparr> step_number = 2, description = ''wire the route'',
             relevant_files = [''app.py''], code_changes = [(''app.py'', ''+route'')] \<rparr>,
           \<lparr> step_number = 1, description = ''add the form'',
             relevant_files = [''form.py''], code_changes = [(''form.py'', ''+form'')] \<rparr>,
           \<lparr> step_number = 1, description = ''add the test'',
             relevant_files = [], code_changes = [] \<rparr> ])"
  by (simp add: validate_LowLevelDesignPlan_def validate_DesignStep_def required_field_def
      and_then_def validate_List_def validate_Dict_def lax_int_def lax_str_def)

end
